theory Spec2Isabelle
  imports Complex_Main "HOL-Library.Sublist"
begin

section \<open>JavaScript strings and thrown values\<close>

text \<open>
  Strings are lists of code units; the model keeps to the code units below 256, so the
  white space that \<^verbatim>\<open>String.prototype.trim\<close> removes is TAB, LF, VT, FF, CR, SPACE and
  NBSP.
\<close>

definition isWhiteSpace :: "char \<Rightarrow> bool" where
  "isWhiteSpace c =
     (c \<in> {CHR 0x09, CHR 0x0A, CHR 0x0B, CHR 0x0C, CHR 0x0D, CHR 0x20, CHR 0xA0})"

definition trim :: "string \<Rightarrow> string" where
  "trim s = rev (dropWhile isWhiteSpace (rev (dropWhile isWhiteSpace s)))"

text \<open>\<^verbatim>\<open>haystack.includes(needle)\<close>: the needle occurs as a contiguous run.\<close>

fun includes_js :: "string \<Rightarrow> string \<Rightarrow> bool" where
  "includes_js [] needle = (needle = [])"
| "includes_js (c # cs) needle = (prefix needle (c # cs) \<or> includes_js cs needle)"

text \<open>
  A thrown value is an \<^verbatim>\<open>Error\<close> object, of which only the message matters here, or
  anything else (\<^verbatim>\<open>err instanceof Error\<close> is false).
\<close>

datatype thrown = JsError (message: string) | NonError

text \<open>How an awaited promise settles.\<close>

datatype 'a settled = Fulfilled 'a | Rejected thrown

section \<open>services/geminiService.ts\<close>

text \<open>
  The request handed to \<^verbatim>\<open>ai.models.generateContent\<close>: the model name, the inline
  JPEG data and the prompt text. The service is outside the repository, so it is a
  parameter \<open>gen\<close> that maps the request to the way the call settles; a fulfilled call
  carries \<^verbatim>\<open>response.text\<close>, which the SDK leaves undefined when the response has no
  text part.
\<close>

record request =
  rq_model :: string
  rq_imageData :: string
  rq_promptText :: string

definition TEXT_MODEL :: string where
  "TEXT_MODEL = ''gemini-2.5-flash-preview-04-17''"

definition basePrompt :: string where
  "basePrompt = ''Analyze this image and extract any visible text. Present the extracted text as a single string. If multiple distinct text blocks are found, concatenate them with a space in between. If no text is found, return an empty string.''"

definition promptText :: "string option \<Rightarrow> string" where
  "promptText customPrompt =
     (case customPrompt of
        None \<Rightarrow> basePrompt
      | Some cp \<Rightarrow>
          if cp \<noteq> [] \<and> trim cp \<noteq> []
          then basePrompt @ [CHR 0x0A, CHR 0x0A] @ ''Additional user instructions: '' @ trim cp
          else basePrompt)"

definition mkRequest :: "string \<Rightarrow> string option \<Rightarrow> request" where
  "mkRequest base64ImageData customPrompt =
     \<lparr>rq_model = TEXT_MODEL, rq_imageData = base64ImageData,
      rq_promptText = promptText customPrompt\<rparr>"

definition msgNotConfigured :: string where
  "msgNotConfigured = ''Gemini API Key is not configured. Please set the API_KEY environment variable.''"

definition msgInvalidKey :: string where
  "msgInvalidKey = ''Invalid Gemini API Key. Please check your API_KEY environment variable.''"

definition msgApiErrorPrefix :: string where
  "msgApiErrorPrefix = ''Gemini API error: ''"

definition msgUnknown :: string where
  "msgUnknown = ''An unknown error occurred while communicating with the Gemini API.''"

text \<open>
  The \<^verbatim>\<open>TypeError\<close> of \<^verbatim>\<open>identifiedText.trim()\<close> when \<^verbatim>\<open>response.text\<close> is undefined.
  It is raised inside the \<^verbatim>\<open>try\<close> block.
\<close>

definition msgTrimOfUndefined :: string where
  "msgTrimOfUndefined = ''Cannot read properties of undefined (reading 'trim')''"

text \<open>\<^verbatim>\<open>!apiKey\<close>: the environment variable is unset or the empty string.\<close>

definition keyMissing :: "string option \<Rightarrow> bool" where
  "keyMissing apiKey = (apiKey = None \<or> apiKey = Some [])"

text \<open>The \<^verbatim>\<open>catch\<close> block of \<^verbatim>\<open>identifyTextInImage\<close>.\<close>

definition rethrow :: "thrown \<Rightarrow> thrown" where
  "rethrow e =
     (case e of
        JsError m \<Rightarrow>
          if includes_js m ''API key not valid'' then JsError msgInvalidKey
          else JsError (msgApiErrorPrefix @ m)
      | NonError \<Rightarrow> JsError msgUnknown)"

text \<open>
  \<^verbatim>\<open>identifyTextInImage(base64ImageData, customPrompt)\<close>: \<open>Inl\<close> is the value thrown
  (the promise rejects), \<open>Inr\<close> the string returned.
\<close>

definition identifyTextInImage ::
  "string option \<Rightarrow> (request \<Rightarrow> string option settled) \<Rightarrow> string \<Rightarrow> string option
     \<Rightarrow> thrown + string" where
  "identifyTextInImage apiKey gen base64ImageData customPrompt =
     (if keyMissing apiKey then Inl (JsError msgNotConfigured)
      else
        case gen (mkRequest base64ImageData customPrompt) of
          Fulfilled (Some identifiedText) \<Rightarrow> Inr (trim identifiedText)
        | Fulfilled None \<Rightarrow> Inl (rethrow (JsError msgTrimOfUndefined))
        | Rejected e \<Rightarrow> Inl (rethrow e))"

text \<open>
  The error classes of the specification, read off the messages the service throws.
\<close>

datatype RecognitionError = invalid_credentials | upstream_error string | unknown

definition classify :: "thrown \<Rightarrow> RecognitionError option" where
  "classify e =
     (case e of
        NonError \<Rightarrow> None
      | JsError m \<Rightarrow>
          if m = msgNotConfigured \<or> m = msgInvalidKey then Some invalid_credentials
          else if prefix msgApiErrorPrefix m
            then Some (upstream_error (drop (length msgApiErrorPrefix) m))
          else if m = msgUnknown then Some unknown
          else None)"

section \<open>App.tsx: data\<close>

datatype ActiveInputType = camera | screen | none

text \<open>A \<^verbatim>\<open>MediaStream\<close> is known by its tracks, a track by its identity.\<close>

record MediaStream =
  tracks :: "nat list"

record voice =
  voiceURI :: string

record utterance =
  u_text :: string
  u_rate :: real
  u_voice :: "voice option"

text \<open>
  The video element behind \<^verbatim>\<open>videoRef\<close>. The browser alone moves \<^verbatim>\<open>readyState\<close>;
  \<^verbatim>\<open>HAVE_METADATA\<close> is 1.
\<close>

record video =
  srcObject :: "MediaStream option"
  readyState :: nat

definition HAVE_METADATA :: nat where
  "HAVE_METADATA = 1"

text \<open>
  The canvas behind \<^verbatim>\<open>canvasRef\<close>: whether \<^verbatim>\<open>getContext('2d')\<close> gives a context.
\<close>

record canvas =
  has2d :: bool

datatype RecordingState = inactive | recording | paused

text \<open>
  A \<^verbatim>\<open>MediaRecorder\<close>. \<^verbatim>\<open>stop()\<close> makes it inactive at once and queues its final
  \<^verbatim>\<open>dataavailable\<close> and \<^verbatim>\<open>stop\<close> events, which \<open>mr_stopQueued\<close> records.
\<close>

record MediaRecorder =
  mr_stream :: MediaStream
  mr_mimeType :: string
  mr_state :: RecordingState
  mr_stopQueued :: bool

text \<open>
  The component is a function that React calls once per render. The state variables are
  constants of that call, and every callback made by \<^verbatim>\<open>useCallback\<close> closes over the
  constants of the render that made it: calling a setter changes what the next render
  sees, never what a callback already holds. A \<open>render\<close> is the tuple of those
  constants; each callback below takes the render it closes over as its first argument
  and reads the state variables from it. Dependency arrays list every state variable a
  callback reads, so the callbacks of one render all see that render's values.
\<close>

record render =
  r_isCameraOn :: bool
  r_isScreenSharingOn :: bool
  r_activeInputType :: ActiveInputType
  r_isProcessingAI :: bool
  r_currentSpokenText :: string
  r_stream :: "MediaStream option"
  r_customPromptText :: string
  r_isRecording :: bool
  r_speechRate :: real
  r_availableVoices :: "voice list"
  r_selectedVoiceURI :: "string option"

text \<open>
  A call of \<^verbatim>\<open>identifyTextInImage\<close> that has not settled: the arguments it was given and
  the render of the \<^verbatim>\<open>captureFrameAndProcess\<close> that awaits it.
\<close>

record pendingCall =
  pc_closure :: render
  pc_image :: string
  pc_prompt :: string

text \<open>
  The session: the state variables as the setters left them, the refs (whose
  \<^verbatim>\<open>.current\<close> every callback reads live), and the browser objects the component drives:
  the queue of \<^verbatim>\<open>window.speechSynthesis\<close> (its head is the utterance being spoken), the
  tracks that have been stopped, and the recognition calls in flight. The interval timer
  is kept with its ref: \<open>processingIntervalRef\<close> holds the render of the
  \<^verbatim>\<open>captureFrameAndProcess\<close> that \<^verbatim>\<open>setInterval\<close> was given, for the timer calls that
  function object on every tick whatever is rendered later.
\<close>

record session =
  isCameraOn :: bool
  isScreenSharingOn :: bool
  activeInputType :: ActiveInputType
  isProcessingAI :: bool
  currentSpokenText :: string
  lastDetectedTextByAI :: string
  error :: "string option"
  stream :: "MediaStream option"
  customPromptText :: string
  isRecording :: bool
  videoRecordUrl :: "string option"
  recordingError :: "string option"
  speechRate :: real
  availableVoices :: "voice list"
  selectedVoiceURI :: "string option"
  videoRef :: "video option"
  canvasRef :: "canvas option"
  processingIntervalRef :: "render option"
  mediaRecorderRef :: "MediaRecorder option"
  recordedChunksRef :: "string list"
  screenEndedWatch :: "(nat \<times> render) option"
  speaking :: "utterance list"
  endedTracks :: "nat set"
  inFlight :: "pendingCall list"

text \<open>The render that React produces from the session's state variables.\<close>

definition render_of :: "session \<Rightarrow> render" where
  "render_of s =
     \<lparr>r_isCameraOn = isCameraOn s, r_isScreenSharingOn = isScreenSharingOn s,
      r_activeInputType = activeInputType s, r_isProcessingAI = isProcessingAI s,
      r_currentSpokenText = currentSpokenText s, r_stream = stream s,
      r_customPromptText = customPromptText s, r_isRecording = isRecording s,
      r_speechRate = speechRate s, r_availableVoices = availableVoices s,
      r_selectedVoiceURI = selectedVoiceURI s\<rparr>"

text \<open>The component when it mounts, with its video and canvas elements in the page.\<close>

definition initial :: session where
  "initial =
     \<lparr>isCameraOn = False, isScreenSharingOn = False, activeInputType = none,
      isProcessingAI = False, currentSpokenText = [], lastDetectedTextByAI = [],
      error = None, stream = None, customPromptText = [], isRecording = False,
      videoRecordUrl = None, recordingError = None, speechRate = 1,
      availableVoices = [], selectedVoiceURI = None,
      videoRef = Some \<lparr>srcObject = None, readyState = 0\<rparr>,
      canvasRef = Some \<lparr>has2d = True\<rparr>,
      processingIntervalRef = None, mediaRecorderRef = None, recordedChunksRef = [],
      screenEndedWatch = None, speaking = [], endedTracks = {}, inFlight = []\<rparr>"

section \<open>App.tsx: speech\<close>

text \<open>Where, if anywhere, the \<^verbatim>\<open>try\<close> block of \<^verbatim>\<open>speakText\<close> throws.\<close>

datatype speechFault = NoFault | CancelThrows | ConstructThrows | SpeakThrows

definition msgSpeech :: string where
  "msgSpeech = ''Could not read text aloud. Speech synthesis might not be supported or failed.''"

text \<open>
  The utterance \<^verbatim>\<open>speakText\<close> builds: the rate of the render, and the selected voice
  when \<^verbatim>\<open>selectedVoiceURI\<close> is truthy and names an available voice.
\<close>

definition mkUtterance :: "render \<Rightarrow> string \<Rightarrow> utterance" where
  "mkUtterance rd txt =
     \<lparr>u_text = txt, u_rate = r_speechRate rd,
      u_voice =
        (case r_selectedVoiceURI rd of
           None \<Rightarrow> None
         | Some uri \<Rightarrow>
             if uri = [] then None
             else find (\<lambda>v. voiceURI v = uri) (r_availableVoices rd))\<rparr>"

definition speakText :: "render \<Rightarrow> speechFault \<Rightarrow> string \<Rightarrow> session \<Rightarrow> session" where
  "speakText rd fault txt s =
     (if trim txt = [] then s
      else if fault = CancelThrows then s\<lparr>error := Some msgSpeech\<rparr>
      else
        let s1 = s\<lparr>speaking := []\<rparr> in
        if fault = ConstructThrows \<or> fault = SpeakThrows then s1\<lparr>error := Some msgSpeech\<rparr>
        else s1\<lparr>speaking := speaking s1 @ [mkUtterance rd txt]\<rparr>)"

text \<open>
  The effect \<^verbatim>\<open>useEffect(() => { if (currentSpokenText) speakText(currentSpokenText) },
  [currentSpokenText, speakText])\<close>, after the render \<open>cur\<close> that follows \<open>prev\<close>. React
  skips it when both dependencies are what they were; \<open>newSpeakText\<close> says whether
  \<^verbatim>\<open>speakText\<close> is a new function, which it is when the speech rate, the selected voice
  or the array of voices has been set anew.
\<close>

definition spokenTextEffect ::
  "render \<Rightarrow> render \<Rightarrow> bool \<Rightarrow> speechFault \<Rightarrow> session \<Rightarrow> session" where
  "spokenTextEffect prev cur newSpeakText fault s =
     (if r_currentSpokenText cur = r_currentSpokenText prev \<and> \<not> newSpeakText then s
      else if r_currentSpokenText cur \<noteq> []
        then speakText cur fault (r_currentSpokenText cur) s
      else s)"

section \<open>App.tsx: recording\<close>

text \<open>\<^verbatim>\<open>handleStopRecordingInternal\<close> reads no state variable, only the recorder ref.\<close>

definition handleStopRecordingInternal :: "session \<Rightarrow> session" where
  "handleStopRecordingInternal s =
     (let s1 =
        (case mediaRecorderRef s of
           None \<Rightarrow> s
         | Some mr \<Rightarrow>
             if mr_state mr = recording
             then s\<lparr>mediaRecorderRef := Some (mr\<lparr>mr_state := inactive, mr_stopQueued := True\<rparr>)\<rparr>
             else s)
      in s1\<lparr>isRecording := False\<rparr>)"

definition mimeTypes :: "string list" where
  "mimeTypes =
     [''video/webm;codecs=vp9,opus'', ''video/webm;codecs=vp8,opus'', ''video/webm'',
      ''video/mp4'']"

definition msgNoActiveStream :: string where
  "msgNoActiveStream = ''No active stream to record. Start camera or screen share first.''"

definition msgNoMimeType :: string where
  "msgNoMimeType = ''No supported MIME type found for recording (e.g., video/webm).''"

definition msgStartFailed :: string where
  "msgStartFailed = ''Failed to start recording. MediaRecorder might not be supported or stream is invalid.''"

text \<open>
  Where the \<^verbatim>\<open>try\<close> block of \<^verbatim>\<open>handleStartRecording\<close> throws: at
  \<^verbatim>\<open>MediaRecorder.isTypeSupported\<close> (no \<^verbatim>\<open>MediaRecorder\<close> in this browser), in the
  constructor, or in \<^verbatim>\<open>start()\<close>, when the ref already holds the new recorder.
\<close>

datatype recorderFault = RecorderOk | NoRecorderApi | ConstructorThrows | StartThrows

text \<open>
  \<^verbatim>\<open>handleStartRecording\<close>; \<open>isTypeSupported\<close> is the browser's
  \<^verbatim>\<open>MediaRecorder.isTypeSupported\<close>.
\<close>

definition handleStartRecording ::
  "render \<Rightarrow> (string \<Rightarrow> bool) \<Rightarrow> recorderFault \<Rightarrow> session \<Rightarrow> session" where
  "handleStartRecording rd isTypeSupported fault s =
     (case r_stream rd of
        None \<Rightarrow> s\<lparr>recordingError := Some msgNoActiveStream\<rparr>
      | Some ms \<Rightarrow>
          if r_activeInputType rd = none then s\<lparr>recordingError := Some msgNoActiveStream\<rparr>
          else if r_isRecording rd then s
          else
            let s1 = s\<lparr>recordingError := None, videoRecordUrl := None, recordedChunksRef := []\<rparr>;
                failed = s1\<lparr>recordingError := Some msgStartFailed, isRecording := False\<rparr>
            in
            if fault = NoRecorderApi then failed
            else
              (case find isTypeSupported mimeTypes of
                 None \<Rightarrow> s1\<lparr>recordingError := Some msgNoMimeType\<rparr>
               | Some supportedMimeType \<Rightarrow>
                   if fault = ConstructorThrows then failed
                   else
                     (let mr = \<lparr>mr_stream = ms, mr_mimeType = supportedMimeType,
                                mr_state = inactive, mr_stopQueued = False\<rparr>
                      in
                      if fault = StartThrows
                      then (failed\<lparr>mediaRecorderRef := Some mr\<rparr>)
                      else (s1\<lparr>mediaRecorderRef := Some (mr\<lparr>mr_state := recording\<rparr>),
                               isRecording := True\<rparr>))))"

text \<open>The recorder's handlers: a chunk arrives, the recorder has stopped, it failed.\<close>

definition ondataavailable :: "string \<Rightarrow> session \<Rightarrow> session" where
  "ondataavailable chunk s =
     (if length chunk > 0 then s\<lparr>recordedChunksRef := recordedChunksRef s @ [chunk]\<rparr> else s)"

definition onstop :: "string \<Rightarrow> session \<Rightarrow> session" where
  "onstop url s =
     s\<lparr>videoRecordUrl := Some url, recordedChunksRef := [],
       mediaRecorderRef := map_option (\<lambda>mr. mr\<lparr>mr_stopQueued := False\<rparr>) (mediaRecorderRef s)\<rparr>"

definition onerror :: "string \<Rightarrow> session \<Rightarrow> session" where
  "onerror name s =
     s\<lparr>recordingError := Some (''Recording failed: '' @ (if name = [] then ''Unknown error'' else name)),
       isRecording := False\<rparr>"

section \<open>App.tsx: the capture source\<close>

text \<open>
  \<^verbatim>\<open>stopAllStreamsAndProcessing\<close>. The stream whose tracks it stops is the one of its
  render; the video element, the timer, the speech queue and the recorder are reached
  through refs and globals.
\<close>

definition stopAllStreamsAndProcessing :: "render \<Rightarrow> session \<Rightarrow> session" where
  "stopAllStreamsAndProcessing rd s =
     (let s1 = (case r_stream rd of
                  None \<Rightarrow> s
                | Some ms \<Rightarrow> s\<lparr>endedTracks := endedTracks s \<union> set (tracks ms)\<rparr>);
          s2 = s1\<lparr>videoRef := map_option (\<lambda>v. v\<lparr>srcObject := None\<rparr>) (videoRef s1)\<rparr>;
          s3 = s2\<lparr>stream := None, isCameraOn := False, isScreenSharingOn := False,
                  activeInputType := none\<rparr>;
          s4 = s3\<lparr>processingIntervalRef := None\<rparr>;
          s5 = s4\<lparr>speaking := []\<rparr>;
          s6 = s5\<lparr>currentSpokenText := [], lastDetectedTextByAI := [],
                  isProcessingAI := False\<rparr>
      in handleStopRecordingInternal s6)"

definition msgCamera :: string where
  "msgCamera = ''Could not access camera. Please ensure permissions are granted.''"

definition msgScreen :: string where
  "msgScreen = ''Could not start screen sharing. Please ensure permissions are granted.''"

definition msgScreenEnded :: string where
  "msgScreenEnded = ''Screen sharing ended or permission was revoked.''"

text \<open>
  \<^verbatim>\<open>startCamera\<close> up to its \<^verbatim>\<open>await\<close>, and from there on, given how
  \<^verbatim>\<open>getUserMedia\<close> settled. The timer is given the \<^verbatim>\<open>captureFrameAndProcess\<close> of the
  render \<open>rd\<close> that \<^verbatim>\<open>startCamera\<close> itself belongs to.
\<close>

definition startBegin :: "bool \<Rightarrow> render \<Rightarrow> session \<Rightarrow> session" where
  "startBegin otherOn rd s =
     (let s1 = (if otherOn then stopAllStreamsAndProcessing rd s else s)
      in s1\<lparr>error := None, recordingError := None, videoRecordUrl := None,
            recordedChunksRef := [], currentSpokenText := [], lastDetectedTextByAI := []\<rparr>)"

definition startCamera_resume :: "render \<Rightarrow> MediaStream settled \<Rightarrow> session \<Rightarrow> session" where
  "startCamera_resume rd outcome s =
     (case outcome of
        Fulfilled mediaStream \<Rightarrow>
          s\<lparr>stream := Some mediaStream,
            videoRef := map_option (\<lambda>v. v\<lparr>srcObject := Some mediaStream\<rparr>) (videoRef s),
            isCameraOn := True, isScreenSharingOn := False, activeInputType := camera,
            processingIntervalRef := Some rd\<rparr>
      | Rejected err \<Rightarrow> stopAllStreamsAndProcessing rd (s\<lparr>error := Some msgCamera\<rparr>))"

definition startCamera :: "render \<Rightarrow> MediaStream settled \<Rightarrow> session \<Rightarrow> session" where
  "startCamera rd outcome s =
     startCamera_resume rd outcome (startBegin (r_isScreenSharingOn rd) rd s)"

text \<open>
  \<^verbatim>\<open>startScreenShare\<close> after its \<^verbatim>\<open>await\<close>. \<^verbatim>\<open>getVideoTracks()[0].onended = ...\<close> throws
  inside the \<^verbatim>\<open>try\<close> when the stream has no track; otherwise the handler, which closes
  over the same render, is attached to the first track.
\<close>

definition startScreenShare_resume :: "render \<Rightarrow> MediaStream settled \<Rightarrow> session \<Rightarrow> session" where
  "startScreenShare_resume rd outcome s =
     (case outcome of
        Fulfilled mediaStream \<Rightarrow>
          (let s1 = s\<lparr>stream := Some mediaStream,
                      videoRef := map_option (\<lambda>v. v\<lparr>srcObject := Some mediaStream\<rparr>) (videoRef s)\<rparr>
           in case tracks mediaStream of
                [] \<Rightarrow> stopAllStreamsAndProcessing rd (s1\<lparr>error := Some msgScreen\<rparr>)
              | t # _ \<Rightarrow>
                  s1\<lparr>screenEndedWatch := Some (t, rd),
                     isScreenSharingOn := True, isCameraOn := False, activeInputType := screen,
                     processingIntervalRef := Some rd\<rparr>)
      | Rejected err \<Rightarrow> stopAllStreamsAndProcessing rd (s\<lparr>error := Some msgScreen\<rparr>))"

definition startScreenShare :: "render \<Rightarrow> MediaStream settled \<Rightarrow> session \<Rightarrow> session" where
  "startScreenShare rd outcome s =
     startScreenShare_resume rd outcome (startBegin (r_isCameraOn rd) rd s)"

text \<open>The \<^verbatim>\<open>onended\<close> handler of the shared screen's track.\<close>

definition onended :: "render \<Rightarrow> session \<Rightarrow> session" where
  "onended rd s = (stopAllStreamsAndProcessing rd s)\<lparr>error := Some msgScreenEnded\<rparr>"

definition handleToggleCamera :: "render \<Rightarrow> MediaStream settled \<Rightarrow> session \<Rightarrow> session" where
  "handleToggleCamera rd outcome s =
     (if r_isCameraOn rd then stopAllStreamsAndProcessing rd s else startCamera rd outcome s)"

definition handleToggleScreenShare :: "render \<Rightarrow> MediaStream settled \<Rightarrow> session \<Rightarrow> session" where
  "handleToggleScreenShare rd outcome s =
     (if r_isScreenSharingOn rd then stopAllStreamsAndProcessing rd s
      else startScreenShare rd outcome s)"

text \<open>The browser reports the video element's progress in loading its stream.\<close>

definition setReadyState :: "nat \<Rightarrow> session \<Rightarrow> session" where
  "setReadyState n s = s\<lparr>videoRef := map_option (\<lambda>v. v\<lparr>readyState := n\<rparr>) (videoRef s)\<rparr>"

section \<open>App.tsx: the recognition poller\<close>

definition msgIdentifyFailed :: string where
  "msgIdentifyFailed = ''Failed to identify text from image.''"

text \<open>
  The guard of \<^verbatim>\<open>captureFrameAndProcess\<close>: the processing flag and the input type are
  those of the callback's render, the elements are read through the refs.
\<close>

definition skipsFrame :: "render \<Rightarrow> session \<Rightarrow> bool" where
  "skipsFrame rd s =
     (r_isProcessingAI rd
      \<or> (case videoRef s of None \<Rightarrow> True | Some v \<Rightarrow>
            canvasRef s = None \<or> readyState v < HAVE_METADATA)
      \<or> r_activeInputType rd = none)"

text \<open>
  \<^verbatim>\<open>captureFrameAndProcess\<close> up to its \<^verbatim>\<open>await\<close>. \<open>img\<close> is what
  \<^verbatim>\<open>canvas.toDataURL('image/jpeg').split(',')[1]\<close> gives for the frame drawn. With a
  drawing context the call to \<^verbatim>\<open>identifyTextInImage\<close> is made and awaited; without one
  the function goes straight to clearing the flag.
\<close>

definition captureFrameAndProcess_begin :: "render \<Rightarrow> string \<Rightarrow> session \<Rightarrow> session" where
  "captureFrameAndProcess_begin rd img s =
     (if skipsFrame rd s then s
      else
        let s1 = s\<lparr>isProcessingAI := True, error := None\<rparr> in
        if (case canvasRef s1 of None \<Rightarrow> False | Some c \<Rightarrow> has2d c)
        then s1\<lparr>inFlight := inFlight s1 @
                  [\<lparr>pc_closure = rd, pc_image = img, pc_prompt = r_customPromptText rd\<rparr>]\<rparr>
        else s1\<lparr>isProcessingAI := False\<rparr>)"

text \<open>
  \<^verbatim>\<open>captureFrameAndProcess\<close> from its \<^verbatim>\<open>await\<close> on, given what
  \<^verbatim>\<open>identifyTextInImage\<close> returned or threw.
\<close>

definition captureFrameAndProcess_settle :: "render \<Rightarrow> thrown + string \<Rightarrow> session \<Rightarrow> session" where
  "captureFrameAndProcess_settle rd res s =
     (let s1 =
        (case res of
           Inr identifiedText \<Rightarrow>
             if identifiedText \<noteq> [] \<and> trim identifiedText \<noteq> []
             then
               let s2 = s\<lparr>lastDetectedTextByAI := trim identifiedText\<rparr> in
               if trim identifiedText \<noteq> trim (r_currentSpokenText rd)
               then s2\<lparr>currentSpokenText := trim identifiedText\<rparr>
               else s2
             else s
         | Inl err \<Rightarrow>
             s\<lparr>error := Some (case err of JsError m \<Rightarrow> m | NonError \<Rightarrow> msgIdentifyFailed),
               lastDetectedTextByAI := []\<rparr>)
      in s1\<lparr>isProcessingAI := False\<rparr>)"

text \<open>
  A tick of the interval timer calls the function the timer was given, with the frame the
  video shows at that moment.
\<close>

definition tick :: "string \<Rightarrow> session \<Rightarrow> session" where
  "tick img s =
     (case processingIntervalRef s of
        None \<Rightarrow> s
      | Some rd \<Rightarrow> captureFrameAndProcess_begin rd img s)"

text \<open>
  The oldest call in flight settles: \<open>apiKey\<close> is the module's \<^verbatim>\<open>process.env.API_KEY\<close>
  and \<open>gen\<close> the remote service; the awaiting \<^verbatim>\<open>captureFrameAndProcess\<close> resumes.
\<close>

definition settle ::
  "string option \<Rightarrow> (request \<Rightarrow> string option settled) \<Rightarrow> session \<Rightarrow> session" where
  "settle apiKey gen s =
     (case inFlight s of
        [] \<Rightarrow> s
      | pc # rest \<Rightarrow>
          captureFrameAndProcess_settle (pc_closure pc)
            (identifyTextInImage apiKey gen (pc_image pc) (Some (pc_prompt pc)))
            (s\<lparr>inFlight := rest\<rparr>))"

section \<open>App.tsx: what the component can go through\<close>

text \<open>The \<^verbatim>\<open>catch\<close> of \<^verbatim>\<open>handleCopyText\<close>.\<close>

definition msgCopy :: string where
  "msgCopy = ''Failed to copy text to clipboard.''"

text \<open>
  The sessions the mounted component can be in, with the renders whose start of a source
  is waiting for, or has had, its answer. A toggle button calls the handler of the
  current render, and only while the page enables it: the camera button is disabled
  while the screen is shared or a recording runs, the screen-share button while the
  camera is on or a recording runs. A start runs up to its \<^verbatim>\<open>await\<close> at the click and
  resumes, with the render of the click, when the permission prompt is answered; other
  events may come in between. \<open>earlierStopRuns\<close> is a stop made by the callback of any
  render: the cleanup of \<^verbatim>\<open>useEffect(..., [stopAllStreamsAndProcessing, videoRecordUrl])\<close>
  runs the previous render's stop whenever \<^verbatim>\<open>stream\<close> has changed, and again at
  unmount. Where a rule asks less than the page does (the record button is taken as
  always enabled, an effect may run after any render), the relation only holds more
  sessions.
\<close>

inductive reach :: "(ActiveInputType \<times> render) list \<Rightarrow> session \<Rightarrow> bool" where
  mounted: "reach [] initial"
| cameraButtonStops:
    "reach P s \<Longrightarrow> \<not> isScreenSharingOn s \<Longrightarrow> \<not> isRecording s \<Longrightarrow> isCameraOn s \<Longrightarrow>
     reach P (stopAllStreamsAndProcessing (render_of s) s)"
| cameraButtonStarts:
    "reach P s \<Longrightarrow> \<not> isScreenSharingOn s \<Longrightarrow> \<not> isRecording s \<Longrightarrow> \<not> isCameraOn s \<Longrightarrow>
     reach ((camera, render_of s) # P)
       (startBegin (r_isScreenSharingOn (render_of s)) (render_of s) s)"
| cameraAnswered:
    "reach P s \<Longrightarrow> (camera, rd) \<in> set P \<Longrightarrow> reach P (startCamera_resume rd outcome s)"
| screenButtonStops:
    "reach P s \<Longrightarrow> \<not> isCameraOn s \<Longrightarrow> \<not> isRecording s \<Longrightarrow> isScreenSharingOn s \<Longrightarrow>
     reach P (stopAllStreamsAndProcessing (render_of s) s)"
| screenButtonStarts:
    "reach P s \<Longrightarrow> \<not> isCameraOn s \<Longrightarrow> \<not> isRecording s \<Longrightarrow> \<not> isScreenSharingOn s \<Longrightarrow>
     reach ((screen, render_of s) # P)
       (startBegin (r_isCameraOn (render_of s)) (render_of s) s)"
| screenAnswered:
    "reach P s \<Longrightarrow> (screen, rd) \<in> set P \<Longrightarrow> reach P (startScreenShare_resume rd outcome s)"
| timerTicks: "reach P s \<Longrightarrow> reach P (tick img s)"
| callSettles: "reach P s \<Longrightarrow> reach P (settle apiKey gen s)"
| videoLoads: "reach P s \<Longrightarrow> reach P (setReadyState n s)"
| earlierStopRuns: "reach P s \<Longrightarrow> reach P (stopAllStreamsAndProcessing rd s)"
| sharedTrackEnds:
    "reach P s \<Longrightarrow> screenEndedWatch s = Some (t, rd) \<Longrightarrow> reach P (onended rd s)"
| recordButtonStarts:
    "reach P s \<Longrightarrow> reach P (handleStartRecording (render_of s) isTypeSupported fault s)"
| recordButtonStops: "reach P s \<Longrightarrow> reach P (handleStopRecordingInternal s)"
| chunkArrives: "reach P s \<Longrightarrow> reach P (ondataavailable chunk s)"
| recorderStopped: "reach P s \<Longrightarrow> reach P (onstop url s)"
| recorderFailed: "reach P s \<Longrightarrow> reach P (onerror name s)"
| effectRuns:
    "reach P s \<Longrightarrow> reach P (spokenTextEffect prev (render_of s) newSpeakText sfault s)"
| promptEdited: "reach P s \<Longrightarrow> reach P (s\<lparr>customPromptText := txt\<rparr>)"
| rateChosen: "reach P s \<Longrightarrow> reach P (s\<lparr>speechRate := rate\<rparr>)"
| voiceChosen: "reach P s \<Longrightarrow> reach P (s\<lparr>selectedVoiceURI := uri\<rparr>)"
| voicesLoaded: "reach P s \<Longrightarrow> reach P (s\<lparr>availableVoices := voices\<rparr>)"
| copyFails: "reach P s \<Longrightarrow> reach P (s\<lparr>error := Some msgCopy\<rparr>)"

text \<open>
  What holds of every such session: no recognition call is in flight, the timer, if any,
  holds a callback of a render with no active input, so do the starts under way, and an
  active input type comes with its flag.
\<close>

definition idlePolling :: "(ActiveInputType \<times> render) list \<Rightarrow> session \<Rightarrow> bool" where
  "idlePolling P s =
     (inFlight s = [] \<and>
      (case processingIntervalRef s of None \<Rightarrow> True | Some rd \<Rightarrow> r_activeInputType rd = none) \<and>
      list_all (\<lambda>(k, rd). r_activeInputType rd = none) P \<and>
      (activeInputType s = none \<or> isCameraOn s \<or> isScreenSharingOn s))"

section \<open>scripts/htmlToJson.ts\<close>

text \<open>
  The nodes \<^verbatim>\<open>parseDocument\<close> of htmlparser2 builds (domhandler): an element is of type
  \<^verbatim>\<open>tag\<close>, \<^verbatim>\<open>script\<close> or \<^verbatim>\<open>style\<close>; the other nodes are text, comments, directives,
  CDATA sections and documents.
\<close>

datatype elementKind = tag | script | style

datatype domNode =
    Element elementKind string "(string \<times> string) list" "domNode list"
  | TextNode string
  | CommentNode string
  | Directive string string
  | CDATA "domNode list"
  | Document "domNode list"

datatype json =
    JString string
  | JArray "json list"
  | JObject "(string \<times> json) list"

definition kindName :: "elementKind \<Rightarrow> string" where
  "kindName k = (case k of tag \<Rightarrow> ''tag'' | script \<Rightarrow> ''script'' | style \<Rightarrow> ''style'')"

fun nodeToJson :: "domNode \<Rightarrow> json" where
  "nodeToJson (Element k name attribs children) =
     JObject [(''type'', JString (kindName k)), (''name'', JString name),
              (''attribs'', JObject (map (\<lambda>(a, v). (a, JString v)) attribs)),
              (''children'', JArray (map nodeToJson children))]"
| "nodeToJson (TextNode d) = JObject [(''type'', JString ''text''), (''data'', JString d)]"
| "nodeToJson (CommentNode d) = JObject [(''type'', JString ''comment'')]"
| "nodeToJson (Directive name d) = JObject [(''type'', JString ''directive'')]"
| "nodeToJson (CDATA children) = JObject [(''type'', JString ''cdata'')]"
| "nodeToJson (Document children) = JObject [(''type'', JString ''root'')]"

text \<open>
  The script imports Node's callback module (\<^verbatim>\<open>import * as fs from 'fs'\<close>), whose
  \<^verbatim>\<open>readFile(path, options, callback)\<close> hands the contents to its callback. The
  script passes two arguments and awaits the result: Node takes the last argument, the
  string \<^verbatim>\<open>'utf8'\<close>, for the callback and throws a \<^verbatim>\<open>TypeError\<close> before it opens the
  file, whatever the files are.
\<close>

definition msgNoCallback :: string where
  "msgNoCallback =
     ''The '' @ [CHR 0x22] @ ''cb'' @ [CHR 0x22] @
     '' argument must be of type function. Received type string ('utf8')''"

definition readFile_without_callback :: "(string \<Rightarrow> string option) \<Rightarrow> string \<Rightarrow> thrown + string" where
  "readFile_without_callback files path = Inl (JsError msgNoCallback)"

text \<open>
  What a run of the script leaves behind: the exit code, the value whose
  \<^verbatim>\<open>JSON.stringify\<close> text went to standard output, and what \<^verbatim>\<open>console.error\<close> got.
\<close>

record run =
  exitCode :: nat
  stdout :: "json option"
  stderr :: "thrown option"

text \<open>
  \<^verbatim>\<open>main().catch(...)\<close>: \<open>argv2\<close> is \<^verbatim>\<open>process.argv[2]\<close>, \<open>files\<close> the file system,
  \<open>stdin\<close> what standard input delivers up to its end, or its error, and
  \<open>parseDocument\<close> the parser, which gives the children of the document.
\<close>

definition main ::
  "string option \<Rightarrow> (string \<Rightarrow> string option) \<Rightarrow> string settled \<Rightarrow> (string \<Rightarrow> domNode list)
     \<Rightarrow> run" where
  "main argv2 files stdin parseDocument =
     (let fromStdin = (case stdin of Fulfilled d \<Rightarrow> Inr d | Rejected e \<Rightarrow> Inl e);
          html = (case argv2 of
                    None \<Rightarrow> fromStdin
                  | Some path \<Rightarrow>
                      if path \<noteq> [] then readFile_without_callback files path else fromStdin)
      in case html of
           Inl err \<Rightarrow> \<lparr>exitCode = 1, stdout = None, stderr = Some err\<rparr>
         | Inr h \<Rightarrow>
             \<lparr>exitCode = 0, stdout = Some (JArray (map nodeToJson (parseDocument h))),
              stderr = None\<rparr>)"

section \<open>Sessions used as examples\<close>

definition noVoiceRender :: render where
  "noVoiceRender = render_of initial"

definition cameraStream :: MediaStream where
  "cameraStream = \<lparr>tracks = [1]\<rparr>"

definition screenStream :: MediaStream where
  "screenStream = \<lparr>tracks = [2]\<rparr>"

text \<open>The camera is started from the idle component, and granted or denied.\<close>

definition cameraOn :: session where
  "cameraOn = startCamera (render_of initial) (Fulfilled cameraStream) initial"

definition cameraDenied :: session where
  "cameraDenied =
     startCamera (render_of initial) (Rejected (JsError ''Permission denied'')) initial"

text \<open>
  The next sessions exercise the poller's functions with a callback that polls. They
  take \<^verbatim>\<open>startScreenShare\<close> called in the render in which the camera is on, the case its
  first branch is written for; the page disables the button in that render, so the
  component does not get there by its buttons. The video element has loaded the shared
  screen.
\<close>

definition screenOn :: session where
  "screenOn =
     setReadyState 4 (startScreenShare (render_of cameraOn) (Fulfilled screenStream) cameraOn)"

definition cameraRender :: render where
  "cameraRender =
     \<lparr>r_isCameraOn = True, r_isScreenSharingOn = False, r_activeInputType = camera,
      r_isProcessingAI = False, r_currentSpokenText = [], r_stream = Some cameraStream,
      r_customPromptText = [], r_isRecording = False, r_speechRate = 1,
      r_availableVoices = [], r_selectedVoiceURI = None\<rparr>"

text \<open>A service that finds the text A in every frame, and one that refuses the key.\<close>

definition readsA :: "request \<Rightarrow> string option settled" where
  "readsA rq = Fulfilled (Some '' A '')"

definition refusesKey :: "request \<Rightarrow> string option settled" where
  "refusesKey rq = Rejected (JsError ''API key not valid. Please pass a valid API key.'')"


definition screenRefused :: session where
  "screenRefused = settle (Some ''key'') refusesKey (tick ''frame1'' screenOn)"

text \<open>A file system with one page, and what the parser makes of that page.\<close>

definition pageFiles :: "string \<Rightarrow> string option" where
  "pageFiles = Map.empty(''page.html'' \<mapsto> ''<p class=x>hi</p>'')"

definition parsesPage :: "string \<Rightarrow> domNode list" where
  "parsesPage html =
     (if html = ''<p class=x>hi</p>''
      then [Element tag ''p'' [(''class'', ''x'')] [TextNode ''hi'']] else [TextNode html])"

section \<open>The recognition client\<close>

lemma classify_invalid: "classify (JsError msgInvalidKey) = Some invalid_credentials"
  by (simp add: classify_def)

lemma classify_missing: "classify (JsError msgNotConfigured) = Some invalid_credentials"
  by (simp add: classify_def)

lemma classify_upstream: "classify (JsError (msgApiErrorPrefix @ m)) = Some (upstream_error m)"
  by (simp add: classify_def msgApiErrorPrefix_def msgNotConfigured_def msgInvalidKey_def)

lemma classify_unknown: "classify (JsError msgUnknown) = Some unknown"
  by (simp add: classify_def msgApiErrorPrefix_def msgNotConfigured_def msgInvalidKey_def msgUnknown_def)

lemma classify_rethrow:
  "classify (rethrow e) =
     (case e of
        JsError m \<Rightarrow> if includes_js m ''API key not valid'' then Some invalid_credentials
                     else Some (upstream_error m)
      | NonError \<Rightarrow> Some unknown)"
  by (simp add: rethrow_def classify_invalid classify_upstream classify_unknown split: thrown.split)

text \<open>
  C2. For every key, service, image and optional custom prompt, \<^verbatim>\<open>identifyTextInImage\<close>
  either returns the service's text trimmed (the empty string included), or throws an
  \<^verbatim>\<open>Error\<close> of one of three classes: invalid credentials (the key is missing, or the
  service's error message says it is not valid), an upstream error whose message wraps
  the message of the error caught in the \<^verbatim>\<open>try\<close> block, or unknown, when what was caught
  is not an \<^verbatim>\<open>Error\<close>. Nothing else is thrown.
\<close>

theorem identifyTextInImage_classified:
  "(case identifyTextInImage apiKey gen img cp of
      Inr t \<Rightarrow> \<exists>raw. gen (mkRequest img cp) = Fulfilled (Some raw) \<and> t = trim raw
    | Inl e \<Rightarrow>
        (classify e = Some invalid_credentials \<and> e = JsError msgNotConfigured \<and> keyMissing apiKey)
        \<or> (classify e = Some invalid_credentials \<and> e = JsError msgInvalidKey \<and>
             (\<exists>m. gen (mkRequest img cp) = Rejected (JsError m) \<and> includes_js m ''API key not valid''))
        \<or> (\<exists>m. classify e = Some (upstream_error m) \<and> e = JsError (msgApiErrorPrefix @ m) \<and>
               (gen (mkRequest img cp) = Rejected (JsError m)
                \<or> gen (mkRequest img cp) = Fulfilled None \<and> m = msgTrimOfUndefined))
        \<or> (classify e = Some unknown \<and> e = JsError msgUnknown \<and>
             gen (mkRequest img cp) = Rejected NonError))"
proof (cases "keyMissing apiKey")
  case True
  then show ?thesis by (simp add: identifyTextInImage_def classify_missing)
next
  case False
  show ?thesis
  proof (cases "gen (mkRequest img cp)")
    case (Fulfilled r)
    show ?thesis
    proof (cases r)
      case None
      have "\<not> includes_js msgTrimOfUndefined ''API key not valid''"
        by (simp add: msgTrimOfUndefined_def)
      with None Fulfilled False show ?thesis
        by (simp add: identifyTextInImage_def rethrow_def classify_upstream)
    next
      case (Some raw)
      with Fulfilled False show ?thesis by (simp add: identifyTextInImage_def)
    qed
  next
    case (Rejected e)
    show ?thesis
    proof (cases e)
      case (JsError m)
      with Rejected False show ?thesis
        by (simp add: identifyTextInImage_def rethrow_def classify_upstream classify_invalid)
    next
      case NonError
      with Rejected False show ?thesis
        by (simp add: identifyTextInImage_def rethrow_def classify_unknown)
    qed
  qed
qed

theorem identifyTextInImage_classified_witness:
  "identifyTextInImage (Some ''key'') refusesKey ''aGk='' (Some ''read the sign'')
     = Inl (JsError msgInvalidKey)
   \<and> identifyTextInImage (Some ''key'') readsA ''aGk='' None = Inr ''A''
   \<and> identifyTextInImage None readsA ''aGk='' None = Inl (JsError msgNotConfigured)"
  using identifyTextInImage_classified [of "Some ''key''" refusesKey "''aGk=''" "Some ''read the sign''"]
  by (simp add: identifyTextInImage_def keyMissing_def refusesKey_def readsA_def rethrow_def trim_def isWhiteSpace_def)

section \<open>Speech\<close>


lemma dropWhile_self: "xs = [] \<or> \<not> P (hd xs) \<Longrightarrow> dropWhile P xs = xs"
  by (cases xs) auto

lemma last_dropWhile: "dropWhile P xs \<noteq> [] \<Longrightarrow> last (dropWhile P xs) = last xs"
  by (induction xs) (auto split: if_splits)

text \<open>Trimming a trimmed string changes nothing.\<close>

lemma trim_trim: "trim (trim s) = trim s"
proof -
  define u where "u = dropWhile isWhiteSpace s"
  define w where "w = dropWhile isWhiteSpace (rev u)"
  have hu: "u \<noteq> [] \<Longrightarrow> \<not> isWhiteSpace (hd u)"
    unfolding u_def by (rule hd_dropWhile)
  have w: "w = [] \<or> \<not> isWhiteSpace (last w)"
  proof (cases "w = []")
    case False
    have u: "u \<noteq> []"
    proof
      assume "u = []"
      then have "w = []" by (simp add: w_def)
      with False show False by simp
    qed
    have "last w = last (rev u)" using False unfolding w_def by (rule last_dropWhile)
    also have "\<dots> = hd u" using u by (simp add: last_rev)
    finally show ?thesis using hu [OF u] by simp
  qed simp
  have "dropWhile isWhiteSpace (rev w) = rev w"
    using w by (intro dropWhile_self) (auto simp: hd_rev)
  moreover have "dropWhile isWhiteSpace w = w"
    unfolding w_def by (rule dropWhile_idem)
  moreover have "trim s = rev w" by (simp add: trim_def w_def u_def)
  ultimately show ?thesis by (simp add: trim_def)
qed

lemma trim_space: "trim '' '' = []"
  by (simp add: trim_def isWhiteSpace_def)

lemma trim_hello: "trim ''hello'' = ''hello''"
  by (simp add: trim_def isWhiteSpace_def)



text \<open>
  C10. \<^verbatim>\<open>speakText\<close> with empty or white-space-only text returns at once: the session,
  the speech queue with whatever is being spoken included, is exactly as before.
\<close>

theorem speakText_blank_noop:
  "trim txt = [] \<Longrightarrow> speakText rd fault txt s = s"
  by (simp add: speakText_def)

text \<open>A blank call while hello is being spoken leaves hello in the queue.\<close>

theorem speakText_blank_noop_witness:
  "trim '' '' = [] \<and>
   speakText noVoiceRender NoFault '' '' (speakText noVoiceRender NoFault ''hello'' initial)
     = speakText noVoiceRender NoFault ''hello'' initial \<and>
   speaking (speakText noVoiceRender NoFault ''hello'' initial) = [mkUtterance noVoiceRender ''hello'']"
  using speakText_blank_noop [of "'' ''" noVoiceRender NoFault "speakText noVoiceRender NoFault ''hello'' initial"]
  by (simp add: trim_space trim_hello speakText_def)

text \<open>
  The text \<^verbatim>\<open>speakText\<close> is given is never blank: its one caller is the effect, which
  passes \<^verbatim>\<open>currentSpokenText\<close> when that is not empty, and a poll leaves the spoken text
  as it was or sets it to a trimmed text that is not empty (the starts and the stop set
  it to the empty string).
\<close>

lemma speakable_settle:
  "currentSpokenText (captureFrameAndProcess_settle rd res s) = currentSpokenText s \<or>
   trim (currentSpokenText (captureFrameAndProcess_settle rd res s)) \<noteq> []"
  by (cases res) (auto simp: captureFrameAndProcess_settle_def Let_def trim_trim)

text \<open>
  C7. \<^verbatim>\<open>speakText\<close> never has two utterances in the speech queue, whose head is the one
  that is audible: from a queue of at most one utterance, a call leaves at most one, and
  so do two successive calls. The second call, given a text that is not blank as every
  text the component passes is, preempts the first: once its \<^verbatim>\<open>cancel()\<close> has run,
  nothing of the first call is left in the queue, and when nothing throws the queue
  holds the second call's utterance alone.
\<close>

theorem speakText_single_utterance:
  "length (speaking s) \<le> 1 \<Longrightarrow> trim t2 \<noteq> [] \<Longrightarrow>
   length (speaking (speakText rd1 f1 t1 s)) \<le> 1 \<and>
   length (speaking (speakText rd2 f2 t2 (speakText rd1 f1 t1 s))) \<le> 1 \<and>
   (f2 = NoFault \<longrightarrow>
      speaking (speakText rd2 f2 t2 (speakText rd1 f1 t1 s)) = [mkUtterance rd2 t2]) \<and>
   (f2 \<noteq> CancelThrows \<longrightarrow>
      (\<forall>u \<in> set (speaking (speakText rd2 f2 t2 (speakText rd1 f1 t1 s))). u = mkUtterance rd2 t2))"
  by (simp add: speakText_def Let_def)

theorem speakText_single_utterance_witness:
  "length (speaking initial) \<le> 1 \<and> trim ''world'' \<noteq> [] \<and>
   speaking (speakText noVoiceRender NoFault ''hello'' initial) = [mkUtterance noVoiceRender ''hello''] \<and>
   speaking (speakText noVoiceRender NoFault ''world'' (speakText noVoiceRender NoFault ''hello'' initial))
     = [mkUtterance noVoiceRender ''world'']"
  using speakText_single_utterance [of initial "''world''" noVoiceRender NoFault "''hello''" noVoiceRender NoFault]
  by (simp add: initial_def trim_def isWhiteSpace_def speakText_def)

section \<open>The recorder\<close>

text \<open>
  C8. \<^verbatim>\<open>handleStartRecording\<close> without an active stream (the stream of its render is
  null, or the input type of its render is none) records the no-active-stream message and
  changes nothing else: the recorder ref, \<^verbatim>\<open>isRecording\<close> and the chunks are as before.
\<close>

theorem handleStartRecording_no_stream:
  "r_stream rd = None \<or> r_activeInputType rd = none \<Longrightarrow>
   handleStartRecording rd isTypeSupported fault s = s\<lparr>recordingError := Some msgNoActiveStream\<rparr> \<and>
   mediaRecorderRef (handleStartRecording rd isTypeSupported fault s) = mediaRecorderRef s \<and>
   isRecording (handleStartRecording rd isTypeSupported fault s) = isRecording s \<and>
   recordedChunksRef (handleStartRecording rd isTypeSupported fault s) = recordedChunksRef s"
  by (auto simp: handleStartRecording_def split: option.splits)

theorem handleStartRecording_no_stream_witness:
  "(r_stream (render_of initial) = None \<or> r_activeInputType (render_of initial) = none) \<and>
   handleStartRecording (render_of initial) (\<lambda>m. True) RecorderOk initial
     = initial\<lparr>recordingError := Some msgNoActiveStream\<rparr> \<and>
   mediaRecorderRef (handleStartRecording (render_of initial) (\<lambda>m. True) RecorderOk initial) = None \<and>
   \<not> isRecording (handleStartRecording (render_of initial) (\<lambda>m. True) RecorderOk initial) \<and>
   recordedChunksRef (handleStartRecording (render_of initial) (\<lambda>m. True) RecorderOk initial) = []"
  using handleStartRecording_no_stream [of "render_of initial" "\<lambda>m. True" RecorderOk initial]
  by (simp add: render_of_def initial_def)

section \<open>Stopping the capture source\<close>

lemma stop_fields:
  "stream (stopAllStreamsAndProcessing rd s) = None"
  "activeInputType (stopAllStreamsAndProcessing rd s) = none"
  "isCameraOn (stopAllStreamsAndProcessing rd s) = False"
  "isScreenSharingOn (stopAllStreamsAndProcessing rd s) = False"
  "processingIntervalRef (stopAllStreamsAndProcessing rd s) = None"
  "speaking (stopAllStreamsAndProcessing rd s) = []"
  "isRecording (stopAllStreamsAndProcessing rd s) = False"
  "currentSpokenText (stopAllStreamsAndProcessing rd s) = []"
  "lastDetectedTextByAI (stopAllStreamsAndProcessing rd s) = []"
  "isProcessingAI (stopAllStreamsAndProcessing rd s) = False"
  "error (stopAllStreamsAndProcessing rd s) = error s"
  "recordingError (stopAllStreamsAndProcessing rd s) = recordingError s"
  "videoRef (stopAllStreamsAndProcessing rd s) = map_option (\<lambda>v. v\<lparr>srcObject := None\<rparr>) (videoRef s)"
  "inFlight (stopAllStreamsAndProcessing rd s) = inFlight s"
  by (simp_all add: stopAllStreamsAndProcessing_def handleStopRecordingInternal_def Let_def
        split: option.splits)

lemma stop_frame:
  "canvasRef (stopAllStreamsAndProcessing rd s) = canvasRef s"
  "speechRate (stopAllStreamsAndProcessing rd s) = speechRate s"
  "availableVoices (stopAllStreamsAndProcessing rd s) = availableVoices s"
  "selectedVoiceURI (stopAllStreamsAndProcessing rd s) = selectedVoiceURI s"
  "customPromptText (stopAllStreamsAndProcessing rd s) = customPromptText s"
  "videoRecordUrl (stopAllStreamsAndProcessing rd s) = videoRecordUrl s"
  "recordedChunksRef (stopAllStreamsAndProcessing rd s) = recordedChunksRef s"
  "screenEndedWatch (stopAllStreamsAndProcessing rd s) = screenEndedWatch s"
  by (simp_all add: stopAllStreamsAndProcessing_def handleStopRecordingInternal_def Let_def
        split: option.splits)

lemma stop_tracks:
  "endedTracks (stopAllStreamsAndProcessing rd s) =
     endedTracks s \<union> (case r_stream rd of None \<Rightarrow> {} | Some ms \<Rightarrow> set (tracks ms))"
  by (simp add: stopAllStreamsAndProcessing_def handleStopRecordingInternal_def Let_def
        split: option.splits)

lemma stop_recorder:
  "mediaRecorderRef (stopAllStreamsAndProcessing rd s) = Some mr \<Longrightarrow> mr_state mr \<noteq> recording"
  by (auto simp: stopAllStreamsAndProcessing_def handleStopRecordingInternal_def Let_def
        split: option.splits if_splits)

text \<open>
  A stop does not wait for the recognition calls in flight, and it clears the processing
  flag while they are outstanding.
\<close>

lemma stop_leaves_calls_in_flight:
  "inFlight (stopAllStreamsAndProcessing rd s) = inFlight s \<and>
   \<not> isProcessingAI (stopAllStreamsAndProcessing rd s)"
  by (simp add: stop_fields)

text \<open>
  C3 as stated fails twice. The permission prompt is denied: \<^verbatim>\<open>startCamera\<close> sets the
  error and then stops, and the error is there when the stop has completed. And a stop
  made by the callback of the idle render, as the effect's cleanup makes it once the
  camera has been granted, ends with the input type none and the camera's track still
  live: that callback holds no stream.
\<close>

theorem stop_keeps_error_and_stale_tracks:
  "cameraDenied = stopAllStreamsAndProcessing (render_of initial) (initial\<lparr>error := Some msgCamera\<rparr>) \<and>
   error cameraDenied = Some msgCamera \<and>
   stream cameraOn = Some cameraStream \<and>
   activeInputType (stopAllStreamsAndProcessing (render_of initial) cameraOn) = none \<and>
   endedTracks (stopAllStreamsAndProcessing (render_of initial) cameraOn) = {}"
  by (simp add: cameraDenied_def cameraOn_def startCamera_def startCamera_resume_def
        startBegin_def stop_fields stop_tracks render_of_def initial_def)

text \<open>
  C3, amended. After \<^verbatim>\<open>stopAllStreamsAndProcessing\<close>, made by the callback of any render
  from any session: every track of the stream that render holds has been stopped, which
  are all the tracks of the session's stream when the render holds that stream; the
  video element has no source, the stream is null and the active input type none, the
  timer is cleared, the speech queue is empty, no recorder is recording and
  \<^verbatim>\<open>isRecording\<close> is false, and the spoken text, the detected text and the processing
  flag are cleared. The error state is not touched: \<^verbatim>\<open>error\<close> and \<^verbatim>\<open>recordingError\<close>
  are what they were.
\<close>

theorem stop_postconditions:
  "(\<forall>ms. r_stream rd = Some ms \<longrightarrow>
      set (tracks ms) \<subseteq> endedTracks (stopAllStreamsAndProcessing rd s)) \<and>
   (r_stream rd = stream s \<longrightarrow>
      (\<forall>ms. stream s = Some ms \<longrightarrow>
         set (tracks ms) \<subseteq> endedTracks (stopAllStreamsAndProcessing rd s))) \<and>
   (\<forall>v. videoRef (stopAllStreamsAndProcessing rd s) = Some v \<longrightarrow> srcObject v = None) \<and>
   stream (stopAllStreamsAndProcessing rd s) = None \<and>
   activeInputType (stopAllStreamsAndProcessing rd s) = none \<and>
   \<not> isCameraOn (stopAllStreamsAndProcessing rd s) \<and>
   \<not> isScreenSharingOn (stopAllStreamsAndProcessing rd s) \<and>
   processingIntervalRef (stopAllStreamsAndProcessing rd s) = None \<and>
   speaking (stopAllStreamsAndProcessing rd s) = [] \<and>
   \<not> isRecording (stopAllStreamsAndProcessing rd s) \<and>
   (\<forall>mr. mediaRecorderRef (stopAllStreamsAndProcessing rd s) = Some mr \<longrightarrow> mr_state mr \<noteq> recording) \<and>
   currentSpokenText (stopAllStreamsAndProcessing rd s) = [] \<and>
   lastDetectedTextByAI (stopAllStreamsAndProcessing rd s) = [] \<and>
   \<not> isProcessingAI (stopAllStreamsAndProcessing rd s) \<and>
   error (stopAllStreamsAndProcessing rd s) = error s \<and>
   recordingError (stopAllStreamsAndProcessing rd s) = recordingError s"
  using stop_recorder [of rd s]
  by (auto simp: stop_fields stop_tracks)

text \<open>The camera is on and its button stops it.\<close>

theorem stop_postconditions_witness:
  "r_stream (render_of cameraOn) = stream cameraOn \<and>
   stream cameraOn = Some cameraStream \<and>
   set (tracks cameraStream) \<subseteq> endedTracks (stopAllStreamsAndProcessing (render_of cameraOn) cameraOn) \<and>
   videoRef (stopAllStreamsAndProcessing (render_of cameraOn) cameraOn)
     = Some \<lparr>srcObject = None, readyState = 0\<rparr> \<and>
   activeInputType cameraOn = camera \<and>
   activeInputType (stopAllStreamsAndProcessing (render_of cameraOn) cameraOn) = none \<and>
   processingIntervalRef (stopAllStreamsAndProcessing (render_of cameraOn) cameraOn) = None \<and>
   error (stopAllStreamsAndProcessing (render_of cameraOn) cameraOn) = error cameraOn"
  using stop_postconditions [of "render_of cameraOn" cameraOn]
  by (simp add: render_of_def stop_fields cameraOn_def startCamera_def startCamera_resume_def
        startBegin_def initial_def)

text \<open>
  C4. Stopping twice in a row ends in the state that stopping once ends in, whether the
  second call is made by the same callback or by the one of the render that follows the
  first stop. This holds from every session.
\<close>

theorem stop_idempotent:
  "stopAllStreamsAndProcessing rd (stopAllStreamsAndProcessing rd s)
     = stopAllStreamsAndProcessing rd s \<and>
   stopAllStreamsAndProcessing (render_of (stopAllStreamsAndProcessing rd s))
       (stopAllStreamsAndProcessing rd s)
     = stopAllStreamsAndProcessing rd s"
  by (cases "mediaRecorderRef s"; cases "r_stream rd"; cases "videoRef s")
     (auto simp: stopAllStreamsAndProcessing_def handleStopRecordingInternal_def Let_def
        render_of_def Un_assoc)

section \<open>The example sessions\<close>

lemmas session_defs =
  startCamera_def startCamera_resume_def startScreenShare_def startScreenShare_resume_def
  startBegin_def stopAllStreamsAndProcessing_def handleStopRecordingInternal_def
  setReadyState_def render_of_def initial_def cameraStream_def screenStream_def Let_def

lemma render_cameraOn: "render_of cameraOn = cameraRender"
  by (simp add: cameraOn_def cameraRender_def session_defs)

lemma screenOn_timer: "processingIntervalRef screenOn = Some cameraRender"
  by (simp add: screenOn_def render_cameraOn startScreenShare_def startScreenShare_resume_def
        setReadyState_def screenStream_def Let_def)

lemma screenOn_fields:
  "videoRef screenOn = Some \<lparr>srcObject = Some screenStream, readyState = 4\<rparr>"
  "canvasRef screenOn = Some \<lparr>has2d = True\<rparr>"
  "inFlight screenOn = []"
  "stream screenOn = Some screenStream"
  "isProcessingAI screenOn = False"
  "activeInputType screenOn = screen"
  by (simp_all add: screenOn_def cameraOn_def session_defs)


theorem stop_idempotent_witness:
  "stopAllStreamsAndProcessing (render_of screenOn)
     (stopAllStreamsAndProcessing (render_of screenOn) screenOn)
     = stopAllStreamsAndProcessing (render_of screenOn) screenOn \<and>
   activeInputType screenOn = screen \<and>
   activeInputType (stopAllStreamsAndProcessing (render_of screenOn) screenOn) = none"
  using stop_idempotent [of "render_of screenOn" screenOn]
  by (simp add: screenOn_fields stop_fields)

section \<open>The poller\<close>

text \<open>
  A callback whose render has no active input, or has the processing flag set, never
  polls, whatever the session has become since.
\<close>

lemma idle_timer_never_polls:
  "r_activeInputType rd = none \<Longrightarrow> captureFrameAndProcess_begin rd img s = s"
  by (simp add: captureFrameAndProcess_begin_def skipsFrame_def)

lemma busy_render_never_polls:
  "r_isProcessingAI rd \<Longrightarrow> captureFrameAndProcess_begin rd img s = s"
  by (simp add: captureFrameAndProcess_begin_def skipsFrame_def)

text \<open>
  The timer of a camera started from the idle component holds the idle render, so none of
  its ticks polls.
\<close>

lemma cameraOn_timer: "processingIntervalRef cameraOn = Some (render_of initial)"
  by (simp add: cameraOn_def startCamera_def startCamera_resume_def)

lemma cameraOn_never_polls: "tick img cameraOn = cameraOn"
  by (simp add: tick_def cameraOn_timer idle_timer_never_polls render_of_def initial_def)

lemma skipsFrame_elements:
  "videoRef s' = videoRef s \<Longrightarrow> canvasRef s' = canvasRef s \<Longrightarrow>
   skipsFrame rd s' = skipsFrame rd s"
  by (cases "videoRef s") (simp_all add: skipsFrame_def)

lemma skipsFrame_begin:
  "skipsFrame rd (captureFrameAndProcess_begin rd' img s) = skipsFrame rd s"
  by (rule skipsFrame_elements) (simp_all add: captureFrameAndProcess_begin_def Let_def)

lemma begin_polls:
  assumes "\<not> skipsFrame rd s" and "canvasRef s = Some c" and "has2d c"
  shows "captureFrameAndProcess_begin rd img s =
           s\<lparr>isProcessingAI := True, error := None,
             inFlight := inFlight s @
               [\<lparr>pc_closure = rd, pc_image = img, pc_prompt = r_customPromptText rd\<rparr>]\<rparr>"
  using assms by (simp add: captureFrameAndProcess_begin_def Let_def)

text \<open>
  The flag in the guard is the one of the callback's render, not the one the first tick
  set: were a timer to hold a callback that polls, its next tick would poll too, before
  the first call has settled. No session the component reaches has such a timer, as is
  shown below.
\<close>

lemma second_tick_polls_again:
  assumes "processingIntervalRef s = Some rd" and "\<not> skipsFrame rd s"
      and "canvasRef s = Some c" and "has2d c"
  shows "isProcessingAI (tick img1 s) \<and>
         inFlight (tick img2 (tick img1 s)) =
           inFlight s @
             [\<lparr>pc_closure = rd, pc_image = img1, pc_prompt = r_customPromptText rd\<rparr>,
              \<lparr>pc_closure = rd, pc_image = img2, pc_prompt = r_customPromptText rd\<rparr>]"
proof -
  let ?s1 = "captureFrameAndProcess_begin rd img1 s"
  have s1: "?s1 = s\<lparr>isProcessingAI := True, error := None,
             inFlight := inFlight s @
               [\<lparr>pc_closure = rd, pc_image = img1, pc_prompt = r_customPromptText rd\<rparr>]\<rparr>"
    using assms(2-4) by (rule begin_polls)
  have t1: "tick img1 s = ?s1" using assms(1) by (simp add: tick_def)
  have "\<not> skipsFrame rd ?s1" using assms(2) by (simp add: skipsFrame_begin)
  moreover have "canvasRef ?s1 = Some c" using assms(3) by (simp add: s1)
  ultimately have s2: "captureFrameAndProcess_begin rd img2 ?s1 =
      ?s1\<lparr>isProcessingAI := True, error := None,
             inFlight := inFlight ?s1 @
               [\<lparr>pc_closure = rd, pc_image = img2, pc_prompt = r_customPromptText rd\<rparr>]\<rparr>"
    using assms(4) by (rule begin_polls)
  have "processingIntervalRef ?s1 = Some rd" using assms(1) by (simp add: s1)
  then have t2: "tick img2 ?s1 = captureFrameAndProcess_begin rd img2 ?s1" by (simp add: tick_def)
  show ?thesis unfolding t1 t2 s2 by (simp add: s1)
qed

lemma screenOn_polls: "\<not> skipsFrame cameraRender screenOn"
  by (simp add: skipsFrame_def screenOn_fields cameraRender_def HAVE_METADATA_def)

lemma tick_screenOn:
  "tick img screenOn =
     screenOn\<lparr>isProcessingAI := True, error := None,
       inFlight := [\<lparr>pc_closure = cameraRender, pc_image = img, pc_prompt = []\<rparr>]\<rparr>"
proof -
  have c: "has2d \<lparr>has2d = True\<rparr>" by simp
  show ?thesis
    using begin_polls [OF screenOn_polls screenOn_fields(2) c, of img]
    by (simp add: tick_def screenOn_timer screenOn_fields cameraRender_def)
qed

text \<open>Each step the component can take keeps the invariant.\<close>

lemma idle_stop: "idlePolling P s \<Longrightarrow> idlePolling P (stopAllStreamsAndProcessing rd s)"
  by (simp add: idlePolling_def stopAllStreamsAndProcessing_def handleStopRecordingInternal_def
        Let_def split: option.splits)

lemma idle_begin:
  "idlePolling P s \<Longrightarrow> \<not> isCameraOn s \<Longrightarrow> \<not> isScreenSharingOn s \<Longrightarrow>
   idlePolling ((k, render_of s) # P) (startBegin False (render_of s) s)"
  by (auto simp: idlePolling_def startBegin_def render_of_def)

lemma idle_camera_resume:
  "idlePolling P s \<Longrightarrow> (k, rd) \<in> set P \<Longrightarrow> idlePolling P (startCamera_resume rd outcome s)"
proof (cases outcome)
  case (Fulfilled ms)
  assume "idlePolling P s" "(k, rd) \<in> set P"
  then show ?thesis using Fulfilled
    by (auto simp: idlePolling_def startCamera_resume_def list_all_iff)
next
  case (Rejected e)
  assume "idlePolling P s" "(k, rd) \<in> set P"
  then have "idlePolling P (s\<lparr>error := Some msgCamera\<rparr>)" by (simp add: idlePolling_def)
  then show ?thesis using Rejected by (simp add: startCamera_resume_def idle_stop)
qed

lemma idle_screen_resume:
  "idlePolling P s \<Longrightarrow> (k, rd) \<in> set P \<Longrightarrow> idlePolling P (startScreenShare_resume rd outcome s)"
proof (cases outcome)
  case (Fulfilled ms)
  assume a: "idlePolling P s" "(k, rd) \<in> set P"
  show ?thesis
  proof (cases "tracks ms")
    case Nil
    from a have "idlePolling P (s\<lparr>stream := Some ms,
        videoRef := map_option (\<lambda>v. v\<lparr>srcObject := Some ms\<rparr>) (videoRef s), error := Some msgScreen\<rparr>)"
      by (simp add: idlePolling_def)
    then show ?thesis using Fulfilled Nil
      by (simp add: startScreenShare_resume_def Let_def idle_stop)
  next
    case (Cons t ts)
    with a Fulfilled show ?thesis
      by (auto simp: idlePolling_def startScreenShare_resume_def Let_def list_all_iff)
  qed
next
  case (Rejected e)
  assume "idlePolling P s" "(k, rd) \<in> set P"
  then have "idlePolling P (s\<lparr>error := Some msgScreen\<rparr>)" by (simp add: idlePolling_def)
  then show ?thesis using Rejected by (simp add: startScreenShare_resume_def idle_stop)
qed

lemma idle_tick: "idlePolling P s \<Longrightarrow> tick img s = s"
  by (auto simp: idlePolling_def tick_def captureFrameAndProcess_begin_def skipsFrame_def
        split: option.splits)

lemma idle_settle: "idlePolling P s \<Longrightarrow> settle apiKey gen s = s"
  by (simp add: idlePolling_def settle_def)

lemma idle_recording:
  "idlePolling P s \<Longrightarrow> idlePolling P (handleStartRecording rd isTypeSupported fault s)"
  by (auto simp: idlePolling_def handleStartRecording_def Let_def split: option.splits)

lemma idle_effect:
  "idlePolling P s \<Longrightarrow> idlePolling P (spokenTextEffect prev cur b f s)"
  by (auto simp: idlePolling_def spokenTextEffect_def speakText_def Let_def)

text \<open>
  A start is only ever made from a render with no active input, since each button is
  disabled while the other source is on; so every timer holds a callback that returns at
  its guard, and no recognition call is ever in flight.
\<close>

lemma reach_idlePolling: "reach P s \<Longrightarrow> idlePolling P s"
proof (induction rule: reach.induct)
  case mounted
  show ?case by (simp add: idlePolling_def initial_def)
next
  case (cameraButtonStarts P s)
  then show ?case using idle_begin [of P s camera] by (simp add: render_of_def)
next
  case (screenButtonStarts P s)
  then show ?case using idle_begin [of P s screen] by (simp add: render_of_def)
next
  case (sharedTrackEnds P s t rd)
  then have "idlePolling P (stopAllStreamsAndProcessing rd s)" by (simp add: idle_stop)
  then show ?case by (simp add: onended_def idlePolling_def)
qed (simp_all add: idle_stop idle_camera_resume idle_screen_resume idle_tick idle_settle
       idle_recording idle_effect,
     simp_all add: idlePolling_def setReadyState_def handleStopRecordingInternal_def
       ondataavailable_def onstop_def onerror_def Let_def split: option.splits)

text \<open>
  C1. In every session the component reaches, whatever the sequence of ticks and of the
  other events, at most one recognition call is in flight, and at most one after a
  further tick; and a \<^verbatim>\<open>captureFrameAndProcess\<close> whose render has the processing flag
  set returns at its guard without starting a call.
\<close>

theorem at_most_one_call_in_flight:
  "reach P s \<Longrightarrow>
   length (inFlight s) \<le> 1 \<and> length (inFlight (tick img s)) \<le> 1 \<and>
   (r_isProcessingAI rd \<longrightarrow> captureFrameAndProcess_begin rd img s = s)"
  using reach_idlePolling [of P s] idle_tick [of P s img]
  by (simp add: idlePolling_def captureFrameAndProcess_begin_def skipsFrame_def)

lemma reach_cameraOn: "reach [(camera, render_of initial)] cameraOn"
proof -
  have "reach [(camera, render_of initial)]
          (startBegin (r_isScreenSharingOn (render_of initial)) (render_of initial) initial)"
    by (rule reach.cameraButtonStarts [OF reach.mounted]) (simp_all add: initial_def)
  then have "reach [(camera, render_of initial)]
          (startCamera_resume (render_of initial) (Fulfilled cameraStream)
             (startBegin (r_isScreenSharingOn (render_of initial)) (render_of initial) initial))"
    by (rule reach.cameraAnswered) simp
  then show ?thesis by (simp add: cameraOn_def startCamera_def)
qed

text \<open>The camera has been granted and its video has loaded when the timer ticks.\<close>

theorem at_most_one_call_in_flight_witness:
  "reach [(camera, render_of initial)] (setReadyState 4 cameraOn) \<and>
   isCameraOn (setReadyState 4 cameraOn) \<and>
   length (inFlight (tick ''frame1'' (setReadyState 4 cameraOn))) \<le> 1"
  using at_most_one_call_in_flight [OF reach.videoLoads [OF reach_cameraOn, of 4], of "''frame1''"]
    reach.videoLoads [OF reach_cameraOn, of 4]
  by (simp add: setReadyState_def cameraOn_def startCamera_def startCamera_resume_def)

text \<open>What a poll that read text does, in terms of the text its callback holds.\<close>

lemma settle_read:
  assumes "trim t \<noteq> []"
  shows "lastDetectedTextByAI (captureFrameAndProcess_settle rd (Inr t) s) = trim t \<and>
         currentSpokenText (captureFrameAndProcess_settle rd (Inr t) s) =
           (if trim t \<noteq> trim (r_currentSpokenText rd) then trim t else currentSpokenText s) \<and>
         \<not> isProcessingAI (captureFrameAndProcess_settle rd (Inr t) s)"
  using assms by (cases "t = []") (auto simp: captureFrameAndProcess_settle_def Let_def trim_def)

text \<open>
  When the callback holds no spoken text, or the session's own (trimmed, as every text
  the component stores is), the text read becomes both the detected and the spoken text.
\<close>

lemma poll_speaks_new_text:
  assumes "trim t \<noteq> []"
      and "trim (currentSpokenText s) = currentSpokenText s"
      and "r_currentSpokenText rd = [] \<or> r_currentSpokenText rd = currentSpokenText s"
  shows "lastDetectedTextByAI (captureFrameAndProcess_settle rd (Inr t) s) = trim t \<and>
         currentSpokenText (captureFrameAndProcess_settle rd (Inr t) s) = trim t"
  using assms settle_read [OF assms(1), of rd s] by (auto simp: trim_def)


lemma refused_result:
  "identifyTextInImage (Some ''key'') refusesKey img cp = Inl (JsError msgInvalidKey)"
  by (simp add: identifyTextInImage_def keyMissing_def refusesKey_def rethrow_def)




lemma identifyTextInImage_throws_Error:
  "identifyTextInImage apiKey gen img cp = Inl err \<Longrightarrow> \<exists>m. err = JsError m"
  by (auto simp: identifyTextInImage_def rethrow_def
        split: if_splits settled.splits option.splits thrown.splits)

lemma settle_thrown:
  "captureFrameAndProcess_settle rd (Inl (JsError m)) s =
     s\<lparr>error := Some m, lastDetectedTextByAI := [], isProcessingAI := False\<rparr>"
  by (simp add: captureFrameAndProcess_settle_def)

text \<open>
  C6. When the recognition call of a poll throws, whatever the error, invalid
  credentials included: the thrown \<^verbatim>\<open>Error\<close>'s message becomes the error shown, the
  detected text is cleared, and the timer is left as it was, so that the next tick of a
  timer whose callback polls starts the next recognition call.
\<close>

theorem poll_error_keeps_polling:
  assumes "inFlight s = pc # rest"
      and "identifyTextInImage apiKey gen (pc_image pc) (Some (pc_prompt pc)) = Inl err"
  shows "(\<exists>m. err = JsError m \<and> error (settle apiKey gen s) = Some m) \<and>
         lastDetectedTextByAI (settle apiKey gen s) = [] \<and>
         processingIntervalRef (settle apiKey gen s) = processingIntervalRef s \<and>
         (\<forall>rd c. processingIntervalRef s = Some rd \<and> \<not> skipsFrame rd s \<and>
                 canvasRef s = Some c \<and> has2d c \<longrightarrow>
            inFlight (tick img (settle apiKey gen s)) =
              rest @ [\<lparr>pc_closure = rd, pc_image = img, pc_prompt = r_customPromptText rd\<rparr>])"
proof -
  obtain m where m: "err = JsError m"
    using identifyTextInImage_throws_Error [OF assms(2)] by blast
  have st: "settle apiKey gen s =
      s\<lparr>inFlight := rest, error := Some m, lastDetectedTextByAI := [], isProcessingAI := False\<rparr>"
    using assms by (simp add: settle_def m settle_thrown)
  have next_tick: "inFlight (tick img (settle apiKey gen s)) =
      rest @ [\<lparr>pc_closure = rd, pc_image = img, pc_prompt = r_customPromptText rd\<rparr>]"
    if h: "processingIntervalRef s = Some rd" "\<not> skipsFrame rd s" "canvasRef s = Some c" "has2d c"
    for rd c
  proof -
    have "\<not> skipsFrame rd (settle apiKey gen s)"
      using h(2) skipsFrame_elements [of "settle apiKey gen s" s rd] by (simp add: st)
    moreover have "canvasRef (settle apiKey gen s) = Some c"
      using h(3) by (simp add: st)
    ultimately have "captureFrameAndProcess_begin rd img (settle apiKey gen s) =
        (settle apiKey gen s)\<lparr>isProcessingAI := True, error := None,
           inFlight := inFlight (settle apiKey gen s) @
             [\<lparr>pc_closure = rd, pc_image = img, pc_prompt = r_customPromptText rd\<rparr>]\<rparr>"
      using h(4) by (rule begin_polls)
    moreover have "tick img (settle apiKey gen s) =
        captureFrameAndProcess_begin rd img (settle apiKey gen s)"
      using h(1) by (simp add: tick_def st)
    ultimately show ?thesis by (simp add: st)
  qed
  show ?thesis
    using m next_tick by (simp add: st)
qed

text \<open>
  While the screen is shared the service refuses the key: the credential message is
  shown, the detected text is empty, and the next tick polls again.
\<close>

theorem poll_error_keeps_polling_witness:
  "inFlight (tick ''frame1'' screenOn) =
     [\<lparr>pc_closure = cameraRender, pc_image = ''frame1'', pc_prompt = []\<rparr>] \<and>
   identifyTextInImage (Some ''key'') refusesKey ''frame1'' (Some []) = Inl (JsError msgInvalidKey) \<and>
   error screenRefused = Some msgInvalidKey \<and>
   lastDetectedTextByAI screenRefused = [] \<and>
   processingIntervalRef screenRefused = Some cameraRender \<and>
   inFlight (tick ''frame2'' screenRefused) =
     [\<lparr>pc_closure = cameraRender, pc_image = ''frame2'', pc_prompt = []\<rparr>]"
proof -
  let ?s = "tick ''frame1'' screenOn"
  have a: "inFlight ?s = \<lparr>pc_closure = cameraRender, pc_image = ''frame1'', pc_prompt = []\<rparr> # []"
    by (simp add: tick_screenOn)
  have b: "identifyTextInImage (Some ''key'') refusesKey
             (pc_image \<lparr>pc_closure = cameraRender, pc_image = ''frame1'', pc_prompt = []\<rparr>)
             (Some (pc_prompt \<lparr>pc_closure = cameraRender, pc_image = ''frame1'', pc_prompt = []\<rparr>))
           = Inl (JsError msgInvalidKey)"
    by (simp add: refused_result)
  have t: "processingIntervalRef ?s = Some cameraRender"
    by (simp add: tick_screenOn screenOn_timer)
  have g: "\<not> skipsFrame cameraRender ?s"
    using screenOn_polls skipsFrame_elements [of "tick ''frame1'' screenOn" screenOn cameraRender]
    by (simp add: tick_screenOn)
  have c: "canvasRef ?s = Some \<lparr>has2d = True\<rparr>"
    by (simp add: tick_screenOn screenOn_fields)
  show ?thesis
    using poll_error_keeps_polling [OF a b, of "''frame2''"] t g c a
    by (simp add: screenRefused_def refused_result cameraRender_def)
qed

section \<open>The HTML-to-JSON script\<close>

lemma main_with_path:
  "path \<noteq> [] \<Longrightarrow>
   main (Some path) files stdin parseDocument =
     \<lparr>exitCode = 1, stdout = None, stderr = Some (JsError msgNoCallback)\<rparr>"
  by (simp add: main_def readFile_without_callback_def)

lemma main_from_stdin:
  "main None files (Fulfilled html) parseDocument =
     \<lparr>exitCode = 0, stdout = Some (JArray (map nodeToJson (parseDocument html))), stderr = None\<rparr>"
  by (simp add: main_def)

lemma main_stdin_error:
  "main None files (Rejected e) parseDocument = \<lparr>exitCode = 1, stdout = None, stderr = Some e\<rparr>"
  by (simp add: main_def)

text \<open>
  C9, on the code. Given the path of a file that exists and holds a page, the script
  prints no JSON and exits with code 1; the same page on standard input is converted,
  elements to \<^verbatim>\<open>{type, name, attribs, children}\<close> and text to \<^verbatim>\<open>{type, data}\<close>, with
  exit code 0.
\<close>

theorem file_argument_always_fails:
  "pageFiles ''page.html'' = Some ''<p class=x>hi</p>'' \<and>
   main (Some ''page.html'') pageFiles (Fulfilled []) parsesPage =
     \<lparr>exitCode = 1, stdout = None, stderr = Some (JsError msgNoCallback)\<rparr> \<and>
   main None pageFiles (Fulfilled ''<p class=x>hi</p>'') parsesPage =
     \<lparr>exitCode = 0,
      stdout = Some (JArray
        [JObject [(''type'', JString ''tag''), (''name'', JString ''p''),
                  (''attribs'', JObject [(''class'', JString ''x'')]),
                  (''children'', JArray [JObject [(''type'', JString ''text''),
                                                  (''data'', JString ''hi'')]])]]),
      stderr = None\<rparr>"
  by (simp add: main_def readFile_without_callback_def pageFiles_def parsesPage_def kindName_def)

end
